theory Spec2Isabelle
  imports Complex_Main
begin

section \<open>Data model\<close>

text \<open>
  The program is \<^verbatim>\<open>src/backend/main.py\<close>. Its numbers are Python floats; they are
  modelled as real numbers. Every score the program computes is a sum of a few multiples
  of one half, below 400, so the arithmetic on scores is exact in both readings; the
  distances are idealised (no rounding of \<open>sin\<close>, \<open>cos\<close>, \<open>sqrt\<close>, \<open>atan2\<close>).

  An amenity is the dictionary built at lines 112-117, a road the one of lines 145-148,
  and the amenity set is the dictionary \<open>results\<close> from category name to list.
\<close>

type_synonym tag_map = "(string \<times> string) list"

record amenity =
  amenity_id :: int
  lat :: real
  lon :: real
  tags :: tag_map

record road =
  road_id :: int
  road_tags :: tag_map

type_synonym amenity_set = "string \<rightharpoonup> amenity list"

text \<open>A shapely \<open>Point\<close>: \<open>point_x\<close> is the longitude, \<open>point_y\<close> the latitude.\<close>

record point =
  point_x :: real
  point_y :: real

datatype exn = ZeroDivisionError | IndexError | ValueError | KeyError | ExternalError string

section \<open>Distances\<close>

definition radians :: "real \<Rightarrow> real" where
  "radians d = d * pi / 180"

text \<open>\<open>math.atan2(y, x)\<close> on the reals (no signed zeros).\<close>

definition atan2 :: "real \<Rightarrow> real \<Rightarrow> real" where
  "atan2 y x =
     (if 0 < x then arctan (y / x)
      else if x < 0 then (if 0 \<le> y then arctan (y / x) + pi else arctan (y / x) - pi)
      else if 0 < y then pi / 2
      else if y < 0 then - (pi / 2)
      else 0)"

text \<open>The local variable \<open>a\<close> of \<open>haversine_distance\<close> (lines 164-165).\<close>

definition haversine_a :: "real \<Rightarrow> real \<Rightarrow> real \<Rightarrow> real \<Rightarrow> real" where
  "haversine_a lat1 lon1 lat2 lon2 =
     (let phi1 = radians lat1;
          phi2 = radians lat2;
          delta_phi = radians (lat2 - lat1);
          delta_lambda = radians (lon2 - lon1)
      in (sin (delta_phi / 2))\<^sup>2 + cos phi1 * cos phi2 * (sin (delta_lambda / 2))\<^sup>2)"

definition haversine_distance :: "real \<Rightarrow> real \<Rightarrow> real \<Rightarrow> real \<Rightarrow> real" where
  "haversine_distance lat1 lon1 lat2 lon2 =
     (let R = 6371000;
          a = haversine_a lat1 lon1 lat2 lon2;
          c = 2 * atan2 (sqrt a) (sqrt (1 - a))
      in R * c)"

text \<open>
  \<open>min(min_dist, dist)\<close> where \<open>min_dist\<close> starts as \<open>float('inf')\<close>: the accumulator is
  \<open>None\<close> while it is still infinite.
\<close>

fun min_inf :: "real option \<Rightarrow> real \<Rightarrow> real option" where
  "min_inf None d = Some d"
| "min_inf (Some min_dist) d = Some (min min_dist d)"

definition find_closest :: "point \<Rightarrow> amenity list \<Rightarrow> real option" where
  "find_closest p amenities =
     (if amenities = [] then None
      else fold (\<lambda>amenity min_dist.
                   min_inf min_dist
                     (haversine_distance (point_y p) (point_x p) (lat amenity) (lon amenity)))
             amenities None)"

section \<open>Scoring\<close>

text \<open>
  The test \<open>dist and dist < t\<close> on an \<open>Optional[float]\<close>: Python's \<open>and\<close> takes \<open>None\<close>
  and \<open>0.0\<close> as false. The source's variable \<open>dist\<close> is written \<open>closest\<close> below,
  \<open>dist\<close> being the name of the library's metric.
\<close>

definition dist_and_lt :: "real option \<Rightarrow> real \<Rightarrow> bool" where
  "dist_and_lt closest t = (case closest of None \<Rightarrow> False | Some d \<Rightarrow> d \<noteq> 0 \<and> d < t)"

text \<open>
  \<open>amenities.get(k)\<close> as a condition: false for a missing key and for the empty list.
  \<open>amenities.get(k, [])\<close> is \<open>get_list\<close>.
\<close>

definition get_truthy :: "amenity_set \<Rightarrow> string \<Rightarrow> bool" where
  "get_truthy amenities k = (case amenities k of None \<Rightarrow> False | Some v \<Rightarrow> v \<noteq> [])"

definition get_list :: "amenity_set \<Rightarrow> string \<Rightarrow> amenity list" where
  "get_list amenities k = (case amenities k of None \<Rightarrow> [] | Some v \<Rightarrow> v)"

definition calculate_safety_score :: "point \<Rightarrow> amenity_set \<Rightarrow> real" where
  "calculate_safety_score centroid amenities =
     (let score = 50;
          score =
            (if get_truthy amenities ''police'' then
               (let closest = find_closest centroid (get_list amenities ''police'')
                in if dist_and_lt closest 2000 then score + 20
                   else if dist_and_lt closest 5000 then score + 10
                   else score)
             else score);
          score =
            (if get_truthy amenities ''fire_station'' then
               (let closest = find_closest centroid (get_list amenities ''fire_station'')
                in if dist_and_lt closest 3000 then score + 15
                   else if dist_and_lt closest 7000 then score + 7
                   else score)
             else score);
          score =
            (if get_truthy amenities ''hospital'' then
               (let closest = find_closest centroid (get_list amenities ''hospital'')
                in if dist_and_lt closest 3000 then score + 15
                   else if dist_and_lt closest 5000 then score + 10
                   else score)
             else score)
      in min score 100)"

definition calculate_efficiency_score :: "road list \<Rightarrow> real \<Rightarrow> amenity_set \<Rightarrow> exn + real" where
  "calculate_efficiency_score roads area_sqm amenities =
     (if area_sqm / 1000000 = 0 then Inl ZeroDivisionError
      else
        let score = 40;
            road_density = real (length roads) / (area_sqm / 1000000);
            score =
              (if road_density > 10 then score + 20
               else if road_density > 5 then score + 15
               else if road_density > 2 then score + 10
               else score);
            score = (if get_truthy amenities ''bus_station'' then score + 15 else score);
            parking_count = length (get_list amenities ''parking'');
            score =
              (if parking_count > 2 then score + 10
               else if parking_count > 0 then score + 5
               else score);
            commerce = length (get_list amenities ''restaurant'')
                     + length (get_list amenities ''cafe'')
                     + length (get_list amenities ''bank'');
            score =
              (if commerce > 10 then score + 15
               else if commerce > 5 then score + 10
               else score)
        in Inr (min score 100))"

text \<open>The dictionary \<open>services\<close> (lines 244-251), in insertion order.\<close>

definition services :: "(string \<times> real \<times> real) list" where
  "services =
     [(''school'', 1000, 20),
      (''hospital'', 3000, 15),
      (''pharmacy'', 500, 10),
      (''park'', 1000, 10),
      (''post_office'', 2000, 5),
      (''library'', 2000, 5)]"

text \<open>One pass of the loop body of lines 253-259.\<close>

definition service_step :: "point \<Rightarrow> amenity_set \<Rightarrow> string \<times> real \<times> real \<Rightarrow> real \<Rightarrow> real" where
  "service_step centroid amenities entry score =
     (case entry of (service, max_dist, points) \<Rightarrow>
        if get_truthy amenities service then
          (let closest = find_closest centroid (get_list amenities service)
           in if dist_and_lt closest max_dist then score + points
              else if dist_and_lt closest (max_dist * 2) then score + points / 2
              else score)
        else score)"

definition calculate_accessibility_score :: "point \<Rightarrow> amenity_set \<Rightarrow> real" where
  "calculate_accessibility_score centroid amenities =
     (let score = fold (service_step centroid amenities) services 30
      in min score 100)"

definition calculate_environmental_score :: "amenity_set \<Rightarrow> real" where
  "calculate_environmental_score amenities =
     (let score = 50;
          parks_count = length (get_list amenities ''park'')
                      + length (get_list amenities ''playground'');
          score =
            (if parks_count > 5 then score + 25
             else if parks_count > 2 then score + 15
             else if parks_count > 0 then score + 10
             else score)
      in min score 100)"

text \<open>
  \<open>round(v, 2)\<close>: Python rounds the exact value of the float to two decimals, a tie going
  to the even neighbour.
\<close>

definition py_round2 :: "real \<Rightarrow> real" where
  "py_round2 v =
     (let y = v * 100;
          f = \<lfloor>y\<rfloor>;
          r = y - of_int f
      in (if r < 1 / 2 then of_int f
          else if r > 1 / 2 then of_int (f + 1)
          else if even f then of_int f
          else of_int (f + 1)) / 100)"

section \<open>Recommendations\<close>

text \<open>
  The recommendation texts are Russian; a Python \<open>str\<close> is a sequence of Unicode code
  points, so a text is the list of its code points. The constants below are the literals
  of lines 282-303, in this order: "improve the safety infrastructure (police, fire
  stations)", "develop the road network and public transport", "schools", "medical
  facilities", "parks", "add: ", "increase the number of green zones", "the territory is
  well developed, maintain the current state". Each message starts with a bullet (8226)
  and a space.
\<close>

type_synonym ustring = "nat list"

definition msg_safety :: ustring where
  "msg_safety =
     [8226, 32, 1059, 1083, 1091, 1095, 1096, 1080, 1090, 1100, 32, 1080, 1085, 1092, 1088,
      1072, 1089, 1090, 1088, 1091, 1082, 1090, 1091, 1088, 1091, 32, 1073, 1077, 1079,
      1086, 1087, 1072, 1089, 1085, 1086, 1089, 1090, 1080, 32, 40, 1087, 1086, 1083, 1080,
      1094, 1080, 1103, 44, 32, 1087, 1086, 1078, 1072, 1088, 1085, 1099, 1077, 32, 1089,
      1090, 1072, 1085, 1094, 1080, 1080, 41]"

definition msg_efficiency :: ustring where
  "msg_efficiency =
     [8226, 32, 1056, 1072, 1079, 1074, 1080, 1090, 1100, 32, 1076, 1086, 1088, 1086, 1078,
      1085, 1091, 1102, 32, 1089, 1077, 1090, 1100, 32, 1080, 32, 1086, 1073, 1097, 1077,
      1089, 1090, 1074, 1077, 1085, 1085, 1099, 1081, 32, 1090, 1088, 1072, 1085, 1089,
      1087, 1086, 1088, 1090]"

definition word_schools :: ustring where
  "word_schools = [1096, 1082, 1086, 1083, 1099]"

definition word_medical :: ustring where
  "word_medical = [1084, 1077, 1076, 1091, 1095, 1088, 1077, 1078, 1076, 1077, 1085, 1080, 1103]"

definition word_parks :: ustring where
  "word_parks = [1087, 1072, 1088, 1082, 1080]"

definition msg_add_prefix :: ustring where
  "msg_add_prefix = [8226, 32, 1044, 1086, 1073, 1072, 1074, 1080, 1090, 1100, 58, 32]"

definition msg_environmental :: ustring where
  "msg_environmental =
     [8226, 32, 1059, 1074, 1077, 1083, 1080, 1095, 1080, 1090, 1100, 32, 1082, 1086, 1083,
      1080, 1095, 1077, 1089, 1090, 1074, 1086, 32, 1079, 1077, 1083, 1077, 1085, 1099,
      1093, 32, 1079, 1086, 1085]"

definition msg_maintain :: ustring where
  "msg_maintain =
     [8226, 32, 1058, 1077, 1088, 1088, 1080, 1090, 1086, 1088, 1080, 1103, 32, 1093, 1086,
      1088, 1086, 1096, 1086, 32, 1088, 1072, 1079, 1074, 1080, 1090, 1072, 46, 32, 1055,
      1086, 1076, 1076, 1077, 1088, 1078, 1080, 1074, 1072, 1081, 1090, 1077, 32, 1090,
      1077, 1082, 1091, 1097, 1077, 1077, 32, 1089, 1086, 1089, 1090, 1086, 1103, 1085,
      1080, 1077, 46]"

text \<open>\<open>sep.join(xs)\<close>.\<close>

fun join :: "ustring \<Rightarrow> ustring list \<Rightarrow> ustring" where
  "join sep [] = []"
| "join sep [x] = x"
| "join sep (x # y # ys) = x @ sep @ join sep (y # ys)"

text \<open>
  The list \<open>recs\<close> as it stands before the final join (lines 279-303), and the returned
  text: the join with the newline (code point 10). \<open>', '\<close> is \<open>[44, 32]\<close>.
\<close>

definition recommendation_lines ::
    "real \<Rightarrow> real \<Rightarrow> real \<Rightarrow> real \<Rightarrow> amenity_set \<Rightarrow> ustring list" where
  "recommendation_lines safety efficiency accessibility environmental amenities =
     (let recs = [];
          recs = (if safety < 60 then recs @ [msg_safety] else recs);
          recs = (if efficiency < 60 then recs @ [msg_efficiency] else recs);
          recs =
            (if accessibility < 60 then
               (let missing = [];
                    missing = (if \<not> get_truthy amenities ''school''
                               then missing @ [word_schools] else missing);
                    missing = (if \<not> get_truthy amenities ''hospital''
                               then missing @ [word_medical] else missing);
                    missing = (if \<not> get_truthy amenities ''park''
                               then missing @ [word_parks] else missing)
                in if missing \<noteq> [] then recs @ [msg_add_prefix @ join [44, 32] missing]
                   else recs)
             else recs);
          recs = (if environmental < 60 then recs @ [msg_environmental] else recs);
          recs = (if recs = [] then recs @ [msg_maintain] else recs)
      in recs)"

definition generate_recommendations ::
    "real \<Rightarrow> real \<Rightarrow> real \<Rightarrow> real \<Rightarrow> amenity_set \<Rightarrow> ustring" where
  "generate_recommendations safety efficiency accessibility environmental amenities =
     join [10] (recommendation_lines safety efficiency accessibility environmental amenities)"

section \<open>The geodata gateway\<close>

text \<open>
  What the program cannot compute itself is read from a record of the outside world:
  the two identifiers \<open>uuid.uuid4()\<close> hands out during one request, the two time stamps,
  shapely's answer for a ring (the area and the centroid of \<open>Polygon(ring)\<close>, or the
  exception that the constructor or the reading of \<open>area\<close>, \<open>centroid.x\<close> and
  \<open>centroid.y\<close> raises) and the answer of the Overpass service to each query (the
  elements, already read into the program's dictionaries, or the exception raised by
  the query). An Overpass query is determined by its bounding box and its selector.
\<close>

record world =
  uuid_territory :: string
  uuid_assessment :: string
  now_territory :: string
  now_assessment :: string
  shapely_polygon :: "real list list \<Rightarrow> exn + (real \<times> point)"
  overpass_nodes :: "real list \<Rightarrow> string \<Rightarrow> exn + amenity list"
  overpass_highways :: "real list \<Rightarrow> exn + road list"

definition amenity_types :: "string list" where
  "amenity_types =
     [''school'', ''hospital'', ''pharmacy'', ''police'', ''fire_station'',
      ''bus_station'', ''parking'', ''restaurant'', ''cafe'', ''bank'',
      ''post_office'', ''library'', ''park'', ''playground'']"

text \<open>
  The cache \<open>osm_cache\<close> holds the live entries; the key is the text built from
  \<open>lat\<close>, \<open>lon\<close> and \<open>radius\<close>. Expiry and eviction belong to the cache library and
  only take entries away.
\<close>

type_synonym cache_key = "real \<times> real \<times> int"
type_synonym osm_cache = "cache_key \<rightharpoonup> amenity_set"

text \<open>
  One pass of the loop of lines 99-121: the \<open>try\<close> block stores the elements of the
  answer, the bare \<open>except\<close> stores the empty list.
\<close>

definition fetch_category :: "world \<Rightarrow> real \<Rightarrow> real \<Rightarrow> string \<Rightarrow> amenity_set \<Rightarrow> amenity_set" where
  "fetch_category w lat0 lon0 amenity results =
     (case overpass_nodes w [lat0 - 0.01, lon0 - 0.01, lat0 + 0.01, lon0 + 0.01] amenity of
        Inr amenities \<Rightarrow> results(amenity \<mapsto> amenities)
      | Inl e \<Rightarrow> results(amenity \<mapsto> []))"

definition get_amenities_in_area ::
    "world \<Rightarrow> real \<Rightarrow> real \<Rightarrow> int \<Rightarrow> osm_cache \<Rightarrow> amenity_set \<times> osm_cache" where
  "get_amenities_in_area w lat0 lon0 radius cache =
     (let cache_key = (lat0, lon0, radius)
      in case cache cache_key of
           Some cached \<Rightarrow> (cached, cache)
         | None \<Rightarrow>
             (let results = fold (fetch_category w lat0 lon0) amenity_types Map.empty
              in (results, cache(cache_key \<mapsto> results))))"

text \<open>
  \<open>get_roads_in_polygon\<close>: everything is inside one \<open>try\<close> whose handler returns the
  empty list: \<open>coordinates[0]\<close> of an empty list, \<open>coord[1]\<close> of a coordinate with fewer
  than two numbers, \<open>min\<close> of an empty list and a failing query all end there.
\<close>

definition get_roads_in_polygon :: "world \<Rightarrow> real list list list \<Rightarrow> road list" where
  "get_roads_in_polygon w coordinates =
     (case coordinates of
        [] \<Rightarrow> []
      | ring # _ \<Rightarrow>
          if (\<exists>coord \<in> set ring. length coord < 2) \<or> ring = [] then []
          else
            (let lats = map (\<lambda>coord. coord ! 1) ring;
                 lons = map (\<lambda>coord. coord ! 0) ring;
                 bbox = [Min (set lats), Min (set lons), Max (set lats), Max (set lons)]
             in case overpass_highways w bbox of
                  Inr roads \<Rightarrow> roads
                | Inl e \<Rightarrow> []))"

section \<open>Stores and the orchestrator\<close>

record project =
  project_id :: string
  project_name :: string
  description :: "string option"
  location :: "string option"
  project_created_at :: string
  territories_count :: int

record territory_create =
  new_name :: string
  new_project_id :: string
  new_coordinates :: "real list list list"

record territory =
  territory_id :: string
  territory_name :: string
  territory_project_id :: string
  coordinates :: "real list list list"
  area_sqm :: real
  centroid_lat :: real
  centroid_lon :: real
  territory_created_at :: string

record metrics =
  amenities_count :: "string \<rightharpoonup> nat"
  roads_count :: nat

record assessment =
  assessment_id :: string
  assessment_territory_id :: string
  safety_score :: real
  efficiency_score :: real
  accessibility_score :: real
  environmental_score :: real
  overall_score :: real
  recommendations :: ustring
  assessment_metrics :: metrics
  assessment_created_at :: string

record state =
  PROJECTS :: "string \<rightharpoonup> project"
  TERRITORIES :: "string \<rightharpoonup> territory"
  ASSESSMENTS :: "string \<rightharpoonup> assessment"
  OSM_CACHE :: osm_cache

datatype failure = HTTPException nat string | Unhandled exn

text \<open>
  Lines 379-403, the part of the \<open>try\<close> block after the amenity fetch: the roads, the
  four scores, the mean, the recommendations and the record that is stored. The only
  exception the scorers raise on well-typed data is the division by zero of line 213.
\<close>

definition build_assessment ::
    "world \<Rightarrow> string \<Rightarrow> point \<Rightarrow> real \<Rightarrow> real list list list \<Rightarrow> amenity_set \<Rightarrow> exn + assessment" where
  "build_assessment w tid centroid area coords amenities =
     (let roads = get_roads_in_polygon w coords;
          safety = calculate_safety_score centroid amenities
      in case calculate_efficiency_score roads area amenities of
           Inl e \<Rightarrow> Inl e
         | Inr efficiency \<Rightarrow>
             (let accessibility = calculate_accessibility_score centroid amenities;
                  environmental = calculate_environmental_score amenities;
                  overall = (safety + efficiency + accessibility + environmental) / 4;
                  recommendations =
                    generate_recommendations safety efficiency accessibility environmental
                      amenities
              in Inr \<lparr>assessment_id = uuid_assessment w,
                      assessment_territory_id = tid,
                      safety_score = py_round2 safety,
                      efficiency_score = py_round2 efficiency,
                      accessibility_score = py_round2 accessibility,
                      environmental_score = py_round2 environmental,
                      overall_score = py_round2 overall,
                      recommendations = recommendations,
                      assessment_metrics =
                        \<lparr>amenities_count = (\<lambda>k. map_option length (amenities k)),
                         roads_count = length roads\<rparr>,
                      assessment_created_at = now_assessment w\<rparr>))"

text \<open>
  \<open>create_territory\<close> (lines 348-409). The project check, \<open>coordinates[0]\<close> and the
  \<open>Polygon\<close> constructor stand before the \<open>try\<close>: what they raise reaches the caller.
  The territory is stored before the \<open>try\<close>; the handler of the \<open>try\<close> only prints.
  The cache entry written by the amenity fetch stays, whatever happens afterwards.
\<close>

definition create_territory ::
    "world \<Rightarrow> territory_create \<Rightarrow> state \<Rightarrow> (failure + territory) \<times> state" where
  "create_territory w territory_data s =
     (if new_project_id territory_data \<notin> dom (PROJECTS s)
      then (Inl (HTTPException 404 ''Project not found''), s)
      else
        case new_coordinates territory_data of
          [] \<Rightarrow> (Inl (Unhandled IndexError), s)
        | ring # _ \<Rightarrow>
            (case shapely_polygon w ring of
               Inl e \<Rightarrow> (Inl (Unhandled e), s)
             | Inr (polygon_area, centroid) \<Rightarrow>
                 (let tid = uuid_territory w;
                      area = polygon_area * 111320 * 111320;
                      territory =
                        \<lparr>territory_id = tid,
                         territory_name = new_name territory_data,
                         territory_project_id = new_project_id territory_data,
                         coordinates = new_coordinates territory_data,
                         area_sqm = area,
                         centroid_lat = point_y centroid,
                         centroid_lon = point_x centroid,
                         territory_created_at = now_territory w\<rparr>;
                      s = s\<lparr>TERRITORIES := (TERRITORIES s)(tid \<mapsto> territory)\<rparr>;
                      s = s\<lparr>PROJECTS :=
                              (PROJECTS s)(new_project_id territory_data :=
                                 map_option (\<lambda>p. p\<lparr>territories_count := territories_count p + 1\<rparr>)
                                   (PROJECTS s (new_project_id territory_data)))\<rparr>;
                      (amenities, cache) =
                        get_amenities_in_area w (point_y centroid) (point_x centroid) 1000
                          (OSM_CACHE s);
                      s = s\<lparr>OSM_CACHE := cache\<rparr>;
                      s = (case build_assessment w tid centroid area
                                  (new_coordinates territory_data) amenities of
                             Inr assessment \<Rightarrow>
                               s\<lparr>ASSESSMENTS := (ASSESSMENTS s)(tid \<mapsto> assessment)\<rparr>
                           | Inl e \<Rightarrow> s)
                  in (Inr territory, s))))"

definition get_territory :: "string \<Rightarrow> state \<Rightarrow> failure + territory" where
  "get_territory tid s =
     (case TERRITORIES s tid of
        None \<Rightarrow> Inl (HTTPException 404 ''Territory not found'')
      | Some t \<Rightarrow> Inr t)"

definition get_assessment :: "string \<Rightarrow> state \<Rightarrow> failure + assessment" where
  "get_assessment tid s =
     (case ASSESSMENTS s tid of
        None \<Rightarrow> Inl (HTTPException 404 ''Assessment not found'')
      | Some a \<Rightarrow> Inr a)"

section \<open>The safety score as the specification words it\<close>

text \<open>
  The specification's \<open>closestDistance\<close> is the minimum distance over the candidates, with
  a "none" for the empty list that is distinct from a distance of zero; its safety score is
  the base 50 plus, for each of the three categories on its own, the bonus of the first
  threshold its nearest amenity is strictly below. These two definitions follow the
  specification, not the source; they are what \<open>calculate_safety_score\<close> is compared with.
\<close>

definition closest_distance_spec :: "point \<Rightarrow> amenity list \<Rightarrow> real option" where
  "closest_distance_spec p candidates =
     (if candidates = [] then None
      else Some (Min ((\<lambda>a. haversine_distance (point_y p) (point_x p) (lat a) (lon a))
                        ` set candidates)))"

definition tier_bonus_spec :: "real option \<Rightarrow> real \<Rightarrow> real \<Rightarrow> real \<Rightarrow> real \<Rightarrow> real" where
  "tier_bonus_spec nearest t1 b1 t2 b2 =
     (case nearest of
        None \<Rightarrow> 0
      | Some d \<Rightarrow> if d < t1 then b1 else if d < t2 then b2 else 0)"

definition safety_score_spec :: "point \<Rightarrow> amenity_set \<Rightarrow> real" where
  "safety_score_spec centroid amenities =
     min 100
       (50
        + tier_bonus_spec (closest_distance_spec centroid (get_list amenities ''police''))
            2000 20 5000 10
        + tier_bonus_spec (closest_distance_spec centroid (get_list amenities ''fire_station''))
            3000 15 7000 7
        + tier_bonus_spec (closest_distance_spec centroid (get_list amenities ''hospital''))
            3000 15 5000 10)"

section \<open>Example inputs\<close>

text \<open>The amenity set in which each of the 14 categories is present with the empty list.\<close>

definition all_categories_empty :: amenity_set where
  "all_categories_empty = map_of (map (\<lambda>k. (k, [])) amenity_types)"

definition origin :: point where
  "origin = \<lparr>point_x = 0, point_y = 0\<rparr>"

text \<open>An amenity with identifier \<open>i\<close> at latitude \<open>la\<close> and longitude \<open>lo\<close>, without tags.\<close>

definition amenity_at :: "int \<Rightarrow> real \<Rightarrow> real \<Rightarrow> amenity" where
  "amenity_at i la lo = \<lparr>amenity_id = i, lat = la, lon = lo, tags = []\<rparr>"

text \<open>
  A world in which every amenity query answers with no element except the one for
  hospitals, which fails, and the one for schools, which finds one node; the road query
  finds no road, and every ring is a polygon of area zero around the origin.
\<close>

definition demo_world :: world where
  "demo_world =
     \<lparr>uuid_territory = ''t-1'',
      uuid_assessment = ''a-1'',
      now_territory = ''2024-01-01T00:00:00'',
      now_assessment = ''2024-01-01T00:00:01'',
      shapely_polygon = (\<lambda>ring. Inr (0, origin)),
      overpass_nodes =
        (\<lambda>bbox amenity.
           if amenity = ''hospital'' then Inl (ExternalError ''timeout'')
           else if amenity = ''school'' then Inr [amenity_at 7 0.001 0.001]
           else Inr []),
      overpass_highways = (\<lambda>bbox. Inr [])\<rparr>"

definition demo_request :: territory_create where
  "demo_request =
     \<lparr>new_name = ''plot'',
      new_project_id = ''p-1'',
      new_coordinates = [[[0, 0], [0, 0], [0, 0], [0, 0]]]\<rparr>"

definition demo_state :: state where
  "demo_state =
     \<lparr>PROJECTS =
        [''p-1'' \<mapsto> \<lparr>project_id = ''p-1'', project_name = ''demo'', description = None,
                       location = None, project_created_at = ''2024-01-01T00:00:00'',
                       territories_count = 0\<rparr>],
      TERRITORIES = Map.empty,
      ASSESSMENTS = Map.empty,
      OSM_CACHE = Map.empty\<rparr>"

section \<open>Properties of the distance\<close>

lemma radians_diff: "radians (u - v) = radians u - radians v"
  by (simp add: radians_def diff_divide_distrib left_diff_distrib)

lemma haversine_core_bounds:
  fixes p q s :: real
  assumes "0 \<le> s" and "s \<le> 1"
  shows "0 \<le> (sin ((q - p) / 2))\<^sup>2 + cos p * cos q * s"
    and "(sin ((q - p) / 2))\<^sup>2 + cos p * cos q * s \<le> 1"
proof -
  define X where "X = cos (q - p)"
  define Y where "Y = cos (q + p)"
  have h: "2 * ((q - p) / 2) = q - p" by simp
  have "cos (2 * ((q - p) / 2)) = 1 - 2 * (sin ((q - p) / 2))\<^sup>2"
    by (rule cos_double_sin)
  then have sq: "(sin ((q - p) / 2))\<^sup>2 = (1 - X) / 2"
    by (simp only: h X_def) simp
  have cc: "cos p * cos q = (X + Y) / 2"
    by (simp add: X_def Y_def cos_add cos_diff)
  have X1: "\<bar>X\<bar> \<le> 1" and Y1: "\<bar>Y\<bar> \<le> 1"
    by (simp_all add: X_def Y_def)
  have eq: "(sin ((q - p) / 2))\<^sup>2 + cos p * cos q * s = (1 - (1 - s) * X + s * Y) / 2"
    unfolding sq cc by (simp add: field_simps)
  have b1: "\<bar>(1 - s) * X\<bar> \<le> 1 - s"
    using assms X1 by (simp add: abs_mult mult_left_le)
  have b2: "\<bar>s * Y\<bar> \<le> s"
    using assms Y1 by (simp add: abs_mult mult_left_le)
  show "0 \<le> (sin ((q - p) / 2))\<^sup>2 + cos p * cos q * s"
    unfolding eq using b1 b2 by (simp add: abs_le_iff)
  show "(sin ((q - p) / 2))\<^sup>2 + cos p * cos q * s \<le> 1"
    unfolding eq using b1 b2 by (simp add: abs_le_iff)
qed

text \<open>
  Both arguments of \<open>math.sqrt\<close> at line 166 are non-negative, so its domain error does
  not arise on the reals.
\<close>

lemma haversine_a_bounds: "0 \<le> haversine_a a b c d \<and> haversine_a a b c d \<le> 1"
proof -
  have s0: "0 \<le> (sin (radians (d - b) / 2))\<^sup>2" by simp
  have s1: "(sin (radians (d - b) / 2))\<^sup>2 \<le> 1" by (simp add: abs_square_le_1)
  show ?thesis
    unfolding haversine_a_def Let_def radians_diff[of c a]
    using haversine_core_bounds[OF s0 s1, of "radians c" "radians a"] by simp
qed

lemma haversine_self: "haversine_distance la lo la lo = 0"
  by (simp add: haversine_distance_def haversine_a_def atan2_def radians_def)

lemma haversine_a_sym: "haversine_a a b c d = haversine_a c d a b"
proof -
  have neg: "radians (u - v) / 2 = - (radians (v - u) / 2)" for u v
    by (simp add: radians_def field_simps)
  have s1: "sin (radians (c - a) / 2) = - sin (radians (a - c) / 2)"
    unfolding neg[of c a] by (rule sin_minus)
  have s2: "sin (radians (d - b) / 2) = - sin (radians (b - d) / 2)"
    unfolding neg[of d b] by (rule sin_minus)
  show ?thesis
    unfolding haversine_a_def Let_def s1 s2 by (simp add: mult.commute)
qed

text \<open>
  C8. The distance from a point to itself is 0, and the distance from a first point to a
  second equals the distance from the second to the first.
\<close>

theorem haversine_distance_zero_and_symmetric:
  "haversine_distance la lo la lo = 0
   \<and> haversine_distance lat1 lon1 lat2 lon2 = haversine_distance lat2 lon2 lat1 lon1"
proof
  show "haversine_distance la lo la lo = 0" by (rule haversine_self)
  show "haversine_distance lat1 lon1 lat2 lon2 = haversine_distance lat2 lon2 lat1 lon1"
    unfolding haversine_distance_def haversine_a_sym[of lat1 lon1 lat2 lon2] by (rule refl)
qed

section \<open>Properties of the scorers\<close>

lemma safety_range: "50 \<le> calculate_safety_score c am \<and> calculate_safety_score c am \<le> 100"
  by (simp add: calculate_safety_score_def Let_def)

lemma efficiency_range:
  assumes "area \<noteq> 0"
  shows "\<exists>e. calculate_efficiency_score roads area am = Inr e \<and> 40 \<le> e \<and> e \<le> 100"
  using assms by (simp add: calculate_efficiency_score_def Let_def)

lemma efficiency_zero_area: "calculate_efficiency_score roads 0 am = Inl ZeroDivisionError"
  by (simp add: calculate_efficiency_score_def)

lemma service_step_mono:
  assumes "0 \<le> snd (snd entry)"
  shows "score \<le> service_step c am entry score"
  using assms by (cases entry) (simp add: service_step_def Let_def)

lemma fold_service_step_lower:
  assumes "\<forall>entry \<in> set es. 0 \<le> snd (snd entry)"
  shows "score \<le> fold (service_step c am) es score"
  using assms
proof (induction es arbitrary: score)
  case Nil
  then show ?case by simp
next
  case (Cons e es)
  have "score \<le> service_step c am e score"
    using Cons.prems by (simp add: service_step_mono)
  also have "\<dots> \<le> fold (service_step c am) es (service_step c am e score)"
    using Cons by simp
  finally show ?case by simp
qed

lemma accessibility_range:
  "30 \<le> calculate_accessibility_score c am \<and> calculate_accessibility_score c am \<le> 100"
proof -
  have "30 \<le> fold (service_step c am) services 30"
    by (rule fold_service_step_lower) (simp add: services_def)
  then show ?thesis
    by (simp add: calculate_accessibility_score_def Let_def)
qed

lemma environmental_range:
  "50 \<le> calculate_environmental_score am \<and> calculate_environmental_score am \<le> 75"
  by (simp add: calculate_environmental_score_def Let_def)

text \<open>
  C1. For every amenity set, every list of roads and every positive area, each of the
  four scorers returns a value between 0 and 100 inclusive; the efficiency scorer, the
  only one that can raise, returns.
\<close>

theorem sub_scores_within_0_100:
  assumes "0 < area"
  shows "0 \<le> calculate_safety_score c am \<and> calculate_safety_score c am \<le> 100
         \<and> (\<exists>e. calculate_efficiency_score roads area am = Inr e \<and> 0 \<le> e \<and> e \<le> 100)
         \<and> 0 \<le> calculate_accessibility_score c am \<and> calculate_accessibility_score c am \<le> 100
         \<and> 0 \<le> calculate_environmental_score am \<and> calculate_environmental_score am \<le> 100"
proof -
  have ne: "area \<noteq> 0" using assms by simp
  obtain e where e: "calculate_efficiency_score roads area am = Inr e" "40 \<le> e" "e \<le> 100"
    using efficiency_range[OF ne] by blast
  have eff: "\<exists>e. calculate_efficiency_score roads area am = Inr e \<and> 0 \<le> e \<and> e \<le> 100"
    using e by auto
  show ?thesis
    using safety_range[of c am] accessibility_range[of c am] environmental_range[of am] eff
    by simp
qed

theorem sub_scores_within_0_100_witness:
  "(0::real) < 1000000
   \<and> 0 \<le> calculate_safety_score origin [''police'' \<mapsto> [amenity_at 1 0.01 0.01]]
   \<and> calculate_safety_score origin [''police'' \<mapsto> [amenity_at 1 0.01 0.01]] \<le> 100
   \<and> (\<exists>e. calculate_efficiency_score [] 1000000 [''police'' \<mapsto> [amenity_at 1 0.01 0.01]] = Inr e
           \<and> 0 \<le> e \<and> e \<le> 100)
   \<and> 0 \<le> calculate_accessibility_score origin [''police'' \<mapsto> [amenity_at 1 0.01 0.01]]
   \<and> calculate_accessibility_score origin [''police'' \<mapsto> [amenity_at 1 0.01 0.01]] \<le> 100
   \<and> 0 \<le> calculate_environmental_score [''police'' \<mapsto> [amenity_at 1 0.01 0.01]]
   \<and> calculate_environmental_score [''police'' \<mapsto> [amenity_at 1 0.01 0.01]] \<le> 100"
proof -
  have pos: "(0::real) < 1000000" by simp
  show ?thesis
    using pos sub_scores_within_0_100[OF pos, of origin "[''police'' \<mapsto> [amenity_at 1 0.01 0.01]]" "[]"]
    by simp
qed

section \<open>The nearest amenity\<close>

lemma atan2_nonneg: "0 \<le> y \<Longrightarrow> 0 \<le> x \<Longrightarrow> 0 \<le> atan2 y x"
  by (auto simp: atan2_def zero_le_arctan_iff)

lemma haversine_nonneg: "0 \<le> haversine_distance a b c d"
proof -
  have "0 \<le> atan2 (sqrt (haversine_a a b c d)) (sqrt (1 - haversine_a a b c d))"
    using haversine_a_bounds[of a b c d] by (intro atan2_nonneg) simp_all
  then show ?thesis
    by (simp add: haversine_distance_def Let_def)
qed

lemma fold_min_inf:
  "fold (\<lambda>a acc. min_inf acc (h a)) xs (Some m) = Some (fold min (map h xs) m)"
  by (induction xs arbitrary: m) (simp_all add: min.commute)

text \<open>The loop of \<open>find_closest\<close> computes the specification's minimum.\<close>

lemma find_closest_spec: "find_closest p xs = closest_distance_spec p xs"
proof (cases xs)
  case Nil
  then show ?thesis by (simp add: find_closest_def closest_distance_spec_def)
next
  case (Cons x xs')
  let ?h = "\<lambda>a. haversine_distance (point_y p) (point_x p) (lat a) (lon a)"
  have "Min (set (?h x # map ?h xs')) = fold min (map ?h xs') (?h x)"
    by (rule Min.set_eq_fold)
  then show ?thesis using Cons
    by (simp add: find_closest_def closest_distance_spec_def fold_min_inf)
qed

lemma find_closest_coincident:
  assumes "a \<in> set xs" and "lat a = point_y p" and "lon a = point_x p"
  shows "find_closest p xs = Some 0"
proof -
  let ?h = "\<lambda>a. haversine_distance (point_y p) (point_x p) (lat a) (lon a)"
  have ne: "xs \<noteq> []" using assms(1) by auto
  have "?h a = 0" using assms(2,3) by (simp add: haversine_self)
  then have in0: "0 \<in> ?h ` set xs" using assms(1) by force
  have "Min (?h ` set xs) = 0"
  proof (rule Min_eqI)
    show "finite (?h ` set xs)" by simp
    show "0 \<le> y" if "y \<in> ?h ` set xs" for y using that haversine_nonneg by auto
    show "0 \<in> ?h ` set xs" by (rule in0)
  qed
  then show ?thesis using ne by (simp add: find_closest_spec closest_distance_spec_def)
qed

section \<open>The safety score against the specification\<close>

lemma tier_code_spec:
  assumes "closest \<noteq> Some 0"
  shows "(if dist_and_lt closest t1 then s + b1 else if dist_and_lt closest t2 then s + b2 else s)
         = s + tier_bonus_spec closest t1 b1 t2 b2"
  using assms by (cases closest) (auto simp: dist_and_lt_def tier_bonus_spec_def)

lemma not_truthy_spec:
  "\<not> get_truthy am k \<Longrightarrow>
     tier_bonus_spec (closest_distance_spec c (get_list am k)) t1 b1 t2 b2 = 0"
  by (auto simp: get_truthy_def get_list_def closest_distance_spec_def tier_bonus_spec_def
      split: option.splits)

text \<open>
  Where no category has its nearest amenity at distance 0, the code computes the
  specification's safety score, strict thresholds included.
\<close>

lemma safety_matches_spec:
  assumes "find_closest c (get_list am ''police'') \<noteq> Some 0"
      and "find_closest c (get_list am ''fire_station'') \<noteq> Some 0"
      and "find_closest c (get_list am ''hospital'') \<noteq> Some 0"
  shows "calculate_safety_score c am = safety_score_spec c am"
  unfolding calculate_safety_score_def safety_score_spec_def Let_def
    tier_code_spec[OF assms(1)] tier_code_spec[OF assms(2)] tier_code_spec[OF assms(3)]
  by (simp add: not_truthy_spec find_closest_spec min.commute)

text \<open>A nearest police amenity at exactly 2000 m earns the 10 points of the second tier.\<close>

lemma safety_boundary_2000:
  assumes "find_closest c ps = Some 2000"
  shows "calculate_safety_score c [''police'' \<mapsto> ps] = 60"
proof -
  have "ps \<noteq> []" using assms by (auto simp: find_closest_def)
  then show ?thesis using assms
    by (simp add: calculate_safety_score_def get_truthy_def get_list_def dist_and_lt_def)
qed

text \<open>
  C3. The safety score of the code is not the specification's formula for every input:
  for the centroid (0, 0) and an amenity set whose only entry is one police amenity at
  (0, 0), the nearest police amenity is at distance 0, which is below 2000 m, and the
  formula gives 50 + 20 = 70; the code returns 50, because the test \<open>dist and dist < 2000\<close>
  takes the distance \<open>0.0\<close> for false.
\<close>

theorem safety_score_coincident_police:
  "find_closest origin [amenity_at 1 0 0] = Some 0
   \<and> calculate_safety_score origin [''police'' \<mapsto> [amenity_at 1 0 0]] = 50
   \<and> safety_score_spec origin [''police'' \<mapsto> [amenity_at 1 0 0]] = 70"
  by (simp add: calculate_safety_score_def safety_score_spec_def Let_def get_truthy_def
      get_list_def find_closest_def closest_distance_spec_def tier_bonus_spec_def
      dist_and_lt_def origin_def amenity_at_def haversine_self)

section \<open>A nearest amenity at distance zero\<close>

lemma dist_and_lt_zero: "dist_and_lt (Some 0) t = False"
  by (simp add: dist_and_lt_def)

lemma get_truthy_removed: "get_truthy (am(k := None)) k' = (k' \<noteq> k \<and> get_truthy am k')"
  by (simp add: get_truthy_def)

lemma get_list_removed: "k' \<noteq> k \<Longrightarrow> get_list (am(k := None)) k' = get_list am k'"
  by (simp add: get_list_def)

lemma service_step_removed:
  assumes "find_closest c (get_list am k) = Some 0"
  shows "service_step c (am(k := None)) entry score = service_step c am entry score"
proof (cases entry)
  case (fields service max_dist points)
  show ?thesis
  proof (cases "service = k")
    case True
    then show ?thesis using assms fields
      by (simp add: service_step_def get_truthy_removed dist_and_lt_zero)
  next
    case False
    then show ?thesis using fields
      by (simp add: service_step_def get_truthy_removed get_list_removed)
  qed
qed

lemma accessibility_zero_distance:
  assumes "find_closest c (get_list am k) = Some 0"
  shows "calculate_accessibility_score c (am(k := None)) = calculate_accessibility_score c am"
proof -
  have "service_step c (am(k := None)) = service_step c am"
    using service_step_removed[OF assms] by (intro ext)
  then show ?thesis by (simp add: calculate_accessibility_score_def)
qed

lemma safety_zero_distance:
  assumes "find_closest c (get_list am k) = Some 0"
  shows "calculate_safety_score c (am(k := None)) = calculate_safety_score c am"
proof -
  have a: "k = ''police'' \<Longrightarrow> ?thesis"
    using assms
    by (simp add: calculate_safety_score_def get_truthy_removed get_list_removed dist_and_lt_zero)
  have b: "k = ''fire_station'' \<Longrightarrow> ?thesis"
    using assms
    by (simp add: calculate_safety_score_def get_truthy_removed get_list_removed dist_and_lt_zero)
  have c: "k = ''hospital'' \<Longrightarrow> ?thesis"
    using assms
    by (simp add: calculate_safety_score_def get_truthy_removed get_list_removed dist_and_lt_zero)
  have d: "k \<noteq> ''police'' \<Longrightarrow> k \<noteq> ''fire_station'' \<Longrightarrow> k \<noteq> ''hospital'' \<Longrightarrow> ?thesis"
    by (simp add: calculate_safety_score_def get_truthy_removed get_list_removed)
  show ?thesis using a b c d by blast
qed

text \<open>
  C9. If the nearest amenity of a category is at distance exactly 0 from the centroid,
  the safety scorer and the accessibility scorer return what they return for the same
  amenity set without that category: the category earns no points, as if it were absent,
  although \<open>find_closest\<close> tells the two apart (\<open>Some 0\<close> for the zero distance, \<open>None\<close>
  for no candidates).
\<close>

theorem zero_distance_scores_as_absent:
  assumes "find_closest c (get_list am k) = Some 0"
  shows "calculate_safety_score c am = calculate_safety_score c (am(k := None))
         \<and> calculate_accessibility_score c am = calculate_accessibility_score c (am(k := None))
         \<and> find_closest c (get_list (am(k := None)) k) = None"
  using safety_zero_distance[OF assms] accessibility_zero_distance[OF assms]
  by (simp add: get_list_def find_closest_def)

theorem zero_distance_scores_as_absent_witness:
  "find_closest origin (get_list [''hospital'' \<mapsto> [amenity_at 1 0 0]] ''hospital'') = Some 0
   \<and> calculate_safety_score origin [''hospital'' \<mapsto> [amenity_at 1 0 0]]
       = calculate_safety_score origin ([''hospital'' \<mapsto> [amenity_at 1 0 0]](''hospital'' := None))
   \<and> calculate_accessibility_score origin [''hospital'' \<mapsto> [amenity_at 1 0 0]]
       = calculate_accessibility_score origin
           ([''hospital'' \<mapsto> [amenity_at 1 0 0]](''hospital'' := None))
   \<and> find_closest origin
        (get_list ([''hospital'' \<mapsto> [amenity_at 1 0 0]](''hospital'' := None)) ''hospital'') = None"
proof -
  have z: "find_closest origin (get_list [''hospital'' \<mapsto> [amenity_at 1 0 0]] ''hospital'') = Some 0"
    by (rule find_closest_coincident[of "amenity_at 1 0 0"])
      (simp_all add: get_list_def amenity_at_def origin_def)
  show ?thesis
    using z zero_distance_scores_as_absent[OF z] by blast
qed

section \<open>Properties of the recommendations\<close>

text \<open>
  C10. When the school, hospital and park categories are all non-empty, an
  accessibility below 60 adds no line: the lines are those of the safety, efficiency and
  environmental rules alone. If moreover safety, efficiency and environmental are each at
  least 60, the returned text is the single "well developed, maintain" message.
\<close>

theorem no_accessibility_line_when_nothing_missing:
  assumes "get_truthy am ''school''" and "get_truthy am ''hospital''" and "get_truthy am ''park''"
      and "a < 60"
  shows "recommendation_lines s e a env am =
           (let recs = (if s < 60 then [msg_safety] else [])
                     @ (if e < 60 then [msg_efficiency] else [])
                     @ (if env < 60 then [msg_environmental] else [])
            in if recs = [] then [msg_maintain] else recs)
         \<and> (60 \<le> s \<and> 60 \<le> e \<and> 60 \<le> env \<longrightarrow>
              generate_recommendations s e a env am = msg_maintain)"
  using assms by (simp add: generate_recommendations_def recommendation_lines_def Let_def)

theorem no_accessibility_line_when_nothing_missing_witness:
  "get_truthy [''school'' \<mapsto> [amenity_at 1 1 1], ''hospital'' \<mapsto> [amenity_at 2 1 1],
               ''park'' \<mapsto> [amenity_at 3 1 1]] ''school''
   \<and> get_truthy [''school'' \<mapsto> [amenity_at 1 1 1], ''hospital'' \<mapsto> [amenity_at 2 1 1],
               ''park'' \<mapsto> [amenity_at 3 1 1]] ''hospital''
   \<and> get_truthy [''school'' \<mapsto> [amenity_at 1 1 1], ''hospital'' \<mapsto> [amenity_at 2 1 1],
               ''park'' \<mapsto> [amenity_at 3 1 1]] ''park''
   \<and> (30::real) < 60
   \<and> recommendation_lines 70 70 30 70
        [''school'' \<mapsto> [amenity_at 1 1 1], ''hospital'' \<mapsto> [amenity_at 2 1 1],
         ''park'' \<mapsto> [amenity_at 3 1 1]] = [msg_maintain]
   \<and> generate_recommendations 70 70 30 70
        [''school'' \<mapsto> [amenity_at 1 1 1], ''hospital'' \<mapsto> [amenity_at 2 1 1],
         ''park'' \<mapsto> [amenity_at 3 1 1]] = msg_maintain"
proof -
  let ?am = "[''school'' \<mapsto> [amenity_at 1 1 1], ''hospital'' \<mapsto> [amenity_at 2 1 1],
              ''park'' \<mapsto> [amenity_at 3 1 1]]"
  have h1: "get_truthy ?am ''school''" by (simp add: get_truthy_def)
  have h2: "get_truthy ?am ''hospital''" by (simp add: get_truthy_def)
  have h3: "get_truthy ?am ''park''" by (simp add: get_truthy_def)
  have h4: "(30::real) < 60" by simp
  show ?thesis
    using h1 h2 h3 h4 no_accessibility_line_when_nothing_missing[OF h1 h2 h3 h4, of 70 70 70]
    by simp
qed

section \<open>Properties of the orchestrator\<close>

text \<open>The record that \<open>create_territory\<close> stores when the efficiency scorer returns.\<close>

lemma build_assessment_ok:
  assumes "calculate_efficiency_score (get_roads_in_polygon w coords) area am = Inr e"
  shows "build_assessment w tid c area coords am =
     Inr \<lparr>assessment_id = uuid_assessment w,
          assessment_territory_id = tid,
          safety_score = py_round2 (calculate_safety_score c am),
          efficiency_score = py_round2 e,
          accessibility_score = py_round2 (calculate_accessibility_score c am),
          environmental_score = py_round2 (calculate_environmental_score am),
          overall_score =
            py_round2 ((calculate_safety_score c am + e + calculate_accessibility_score c am
                        + calculate_environmental_score am) / 4),
          recommendations =
            generate_recommendations (calculate_safety_score c am) e
              (calculate_accessibility_score c am) (calculate_environmental_score am) am,
          assessment_metrics =
            \<lparr>amenities_count = (\<lambda>k. map_option length (am k)),
             roads_count = length (get_roads_in_polygon w coords)\<rparr>,
          assessment_created_at = now_assessment w\<rparr>"
  using assms by (simp add: build_assessment_def Let_def)

lemma build_assessment_zero_area: "build_assessment w tid c 0 coords am = Inl ZeroDivisionError"
  by (simp add: build_assessment_def Let_def efficiency_zero_area)

lemma create_territory_stores:
  assumes "new_project_id td \<in> dom (PROJECTS s)"
      and "new_coordinates td = ring # rest"
      and "shapely_polygon w ring = Inr (pa, c)"
  shows "fst (create_territory w td s) =
           Inr \<lparr>territory_id = uuid_territory w,
                territory_name = new_name td,
                territory_project_id = new_project_id td,
                coordinates = new_coordinates td,
                area_sqm = pa * 111320 * 111320,
                centroid_lat = point_y c,
                centroid_lon = point_x c,
                territory_created_at = now_territory w\<rparr>"
    and "TERRITORIES (snd (create_territory w td s)) (uuid_territory w) =
           Some \<lparr>territory_id = uuid_territory w,
                territory_name = new_name td,
                territory_project_id = new_project_id td,
                coordinates = new_coordinates td,
                area_sqm = pa * 111320 * 111320,
                centroid_lat = point_y c,
                centroid_lon = point_x c,
                territory_created_at = now_territory w\<rparr>"
    and "ASSESSMENTS (snd (create_territory w td s)) =
           (case build_assessment w (uuid_territory w) c (pa * 111320 * 111320)
                   (new_coordinates td)
                   (fst (get_amenities_in_area w (point_y c) (point_x c) 1000 (OSM_CACHE s))) of
              Inr a \<Rightarrow> (ASSESSMENTS s)(uuid_territory w \<mapsto> a)
            | Inl e \<Rightarrow> ASSESSMENTS s)"
  using assms
  by (simp_all add: create_territory_def Let_def case_prod_beta split: sum.splits)

section \<open>The example of the empty amenity set\<close>

lemma all_empty_lookup:
  "all_categories_empty k = (if k \<in> set amenity_types then Some [] else None)"
  by (simp add: all_categories_empty_def amenity_types_def)

lemma all_empty_not_truthy: "\<not> get_truthy all_categories_empty k"
  by (simp add: get_truthy_def all_empty_lookup)

lemma all_empty_list: "get_list all_categories_empty k = []"
  by (simp add: get_list_def all_empty_lookup)

lemma py_round2_exact: "py_round2 (of_int n / 100) = of_int n / 100"
  by (simp add: py_round2_def Let_def)

lemma empty_safety: "calculate_safety_score c all_categories_empty = 50"
  by (simp add: calculate_safety_score_def all_empty_not_truthy)

lemma empty_efficiency: "calculate_efficiency_score [] 1000000 all_categories_empty = Inr 40"
  by (simp add: calculate_efficiency_score_def all_empty_not_truthy all_empty_list)

lemma empty_accessibility: "calculate_accessibility_score c all_categories_empty = 30"
  by (simp add: calculate_accessibility_score_def services_def service_step_def
      all_empty_not_truthy)

lemma empty_environmental: "calculate_environmental_score all_categories_empty = 50"
  by (simp add: calculate_environmental_score_def all_empty_list)

lemma empty_lines:
  "recommendation_lines 50 40 30 50 all_categories_empty =
     [msg_safety, msg_efficiency,
      msg_add_prefix @ join [44, 32] [word_schools, word_medical, word_parks],
      msg_environmental]"
  by (simp add: recommendation_lines_def all_empty_not_truthy Let_def)

lemma py_round2_values:
  "py_round2 50 = 50" "py_round2 40 = 40" "py_round2 30 = 30" "py_round2 (85 / 2) = 85 / 2"
  using py_round2_exact[of 5000] py_round2_exact[of 4000] py_round2_exact[of 3000]
    py_round2_exact[of 4250]
  by simp_all

lemma demo_roads: "get_roads_in_polygon demo_world (new_coordinates demo_request) = []"
  by (simp add: get_roads_in_polygon_def demo_world_def demo_request_def)

text \<open>
  C4. For the amenity set in which every category is the empty list, no road and an
  area of 1,000,000 square metres, the scorers return safety 50, efficiency 40,
  accessibility 30 and environmental 50, the stored overall score is 42.5, and the
  recommendation text is the safety line, the efficiency line, the line of the missing
  schools, medical facilities and parks, and the environmental line, in this order.
\<close>

theorem empty_amenities_example:
  assumes "get_roads_in_polygon w coords = []"
  shows "calculate_safety_score c all_categories_empty = 50
         \<and> calculate_efficiency_score (get_roads_in_polygon w coords) 1000000
              all_categories_empty = Inr 40
         \<and> calculate_accessibility_score c all_categories_empty = 30
         \<and> calculate_environmental_score all_categories_empty = 50
         \<and> (\<exists>a. build_assessment w tid c 1000000 coords all_categories_empty = Inr a
                 \<and> safety_score a = 50 \<and> efficiency_score a = 40
                 \<and> accessibility_score a = 30 \<and> environmental_score a = 50
                 \<and> overall_score a = 42.5
                 \<and> recommendations a =
                     join [10]
                       [msg_safety, msg_efficiency,
                        msg_add_prefix @ join [44, 32] [word_schools, word_medical, word_parks],
                        msg_environmental])"
proof -
  have e: "calculate_efficiency_score (get_roads_in_polygon w coords) 1000000
             all_categories_empty = Inr 40"
    using assms empty_efficiency by simp
  show ?thesis
    unfolding build_assessment_ok[OF e] 
    by (simp add: e empty_safety empty_accessibility empty_environmental py_round2_values
        generate_recommendations_def empty_lines)
qed

theorem empty_amenities_example_witness:
  "get_roads_in_polygon demo_world (new_coordinates demo_request) = []
   \<and> calculate_safety_score origin all_categories_empty = 50
   \<and> calculate_efficiency_score (get_roads_in_polygon demo_world (new_coordinates demo_request))
        1000000 all_categories_empty = Inr 40
   \<and> calculate_accessibility_score origin all_categories_empty = 30
   \<and> calculate_environmental_score all_categories_empty = 50
   \<and> (\<exists>a. build_assessment demo_world ''t-1'' origin 1000000 (new_coordinates demo_request)
             all_categories_empty = Inr a
           \<and> safety_score a = 50 \<and> efficiency_score a = 40
           \<and> accessibility_score a = 30 \<and> environmental_score a = 50
           \<and> overall_score a = 42.5
           \<and> recommendations a =
               join [10]
                 [msg_safety, msg_efficiency,
                  msg_add_prefix @ join [44, 32] [word_schools, word_medical, word_parks],
                  msg_environmental])"
  using demo_roads empty_amenities_example[OF demo_roads, of origin "''t-1''"]
  by blast

section \<open>The stored scores\<close>

text \<open>
  C2. Whenever the scorers return, the stored overall score is the mean of the four
  scores as the scorers returned them, rounded to two decimals afterwards; each stored
  sub-score is the scorer's value rounded to two decimals on its own.
\<close>

theorem overall_is_rounded_mean_of_unrounded:
  assumes "calculate_efficiency_score (get_roads_in_polygon w coords) area am = Inr e"
  shows "\<exists>a. build_assessment w tid c area coords am = Inr a
           \<and> overall_score a =
               py_round2 ((calculate_safety_score c am + e + calculate_accessibility_score c am
                           + calculate_environmental_score am) / 4)
           \<and> safety_score a = py_round2 (calculate_safety_score c am)
           \<and> efficiency_score a = py_round2 e
           \<and> accessibility_score a = py_round2 (calculate_accessibility_score c am)
           \<and> environmental_score a = py_round2 (calculate_environmental_score am)"
  unfolding build_assessment_ok[OF assms] by simp

theorem overall_is_rounded_mean_of_unrounded_witness:
  "calculate_efficiency_score
      (get_roads_in_polygon demo_world (new_coordinates demo_request)) 1000000
      all_categories_empty = Inr 40
   \<and> (\<exists>a. build_assessment demo_world ''t-1'' origin 1000000 (new_coordinates demo_request)
             all_categories_empty = Inr a
           \<and> overall_score a = py_round2 ((50 + 40 + 30 + 50) / 4)
           \<and> safety_score a = py_round2 50
           \<and> efficiency_score a = py_round2 40
           \<and> accessibility_score a = py_round2 30
           \<and> environmental_score a = py_round2 50)"
proof -
  have e: "calculate_efficiency_score
      (get_roads_in_polygon demo_world (new_coordinates demo_request)) 1000000
      all_categories_empty = Inr 40"
    by (simp add: demo_roads empty_efficiency)
  show ?thesis
    using e overall_is_rounded_mean_of_unrounded[OF e, of "''t-1''" origin]
    by (simp add: empty_safety empty_accessibility empty_environmental)
qed

section \<open>A failing assessment\<close>

lemma demo_facts:
  "new_project_id demo_request \<in> dom (PROJECTS demo_state)"
  "new_coordinates demo_request = [[0, 0], [0, 0], [0, 0], [0, 0]] # []"
  "shapely_polygon demo_world [[0, 0], [0, 0], [0, 0], [0, 0]] = Inr (0, origin)"
  "uuid_territory demo_world \<notin> dom (ASSESSMENTS demo_state)"
  by (simp_all add: demo_request_def demo_state_def demo_world_def)

lemma demo_build_fails:
  "build_assessment demo_world (uuid_territory demo_world) origin (0 * 111320 * 111320)
     (new_coordinates demo_request)
     (fst (get_amenities_in_area demo_world (point_y origin) (point_x origin) 1000
             (OSM_CACHE demo_state)))
   = Inl ZeroDivisionError"
  by (simp add: build_assessment_zero_area)

text \<open>
  C5. If the assessment raises during the creation of a territory, the assessment store is
  left as it was, the territory (identifier, geometry, area, centroid) is stored and
  returned, and looking the assessment of that territory up answers "not found". In the
  model the two fetches catch their own exceptions, so the exception comes from scoring.
\<close>

theorem failed_assessment_leaves_territory_only:
  assumes "new_project_id td \<in> dom (PROJECTS s)"
      and "new_coordinates td = ring # rest"
      and "shapely_polygon w ring = Inr (pa, c)"
      and "uuid_territory w \<notin> dom (ASSESSMENTS s)"
      and "build_assessment w (uuid_territory w) c (pa * 111320 * 111320) (new_coordinates td)
             (fst (get_amenities_in_area w (point_y c) (point_x c) 1000 (OSM_CACHE s))) = Inl e"
  shows "ASSESSMENTS (snd (create_territory w td s)) = ASSESSMENTS s
         \<and> (\<exists>t. fst (create_territory w td s) = Inr t
                 \<and> TERRITORIES (snd (create_territory w td s)) (uuid_territory w) = Some t
                 \<and> territory_id t = uuid_territory w
                 \<and> coordinates t = new_coordinates td
                 \<and> area_sqm t = pa * 111320 * 111320
                 \<and> centroid_lat t = point_y c \<and> centroid_lon t = point_x c)
         \<and> get_assessment (uuid_territory w) (snd (create_territory w td s))
             = Inl (HTTPException 404 ''Assessment not found'')"
proof -
  have a: "ASSESSMENTS (snd (create_territory w td s)) = ASSESSMENTS s"
    using create_territory_stores(3)[OF assms(1,2,3)] assms(5) by simp
  have g: "get_assessment (uuid_territory w) (snd (create_territory w td s))
             = Inl (HTTPException 404 ''Assessment not found'')"
    using assms(4) by (auto simp: get_assessment_def a split: option.splits)
  show ?thesis
    using a g create_territory_stores(1,2)[OF assms(1,2,3)] by simp
qed

theorem failed_assessment_leaves_territory_only_witness:
  "new_project_id demo_request \<in> dom (PROJECTS demo_state)
   \<and> new_coordinates demo_request = [[0, 0], [0, 0], [0, 0], [0, 0]] # []
   \<and> shapely_polygon demo_world [[0, 0], [0, 0], [0, 0], [0, 0]] = Inr (0, origin)
   \<and> uuid_territory demo_world \<notin> dom (ASSESSMENTS demo_state)
   \<and> build_assessment demo_world (uuid_territory demo_world) origin (0 * 111320 * 111320)
         (new_coordinates demo_request)
         (fst (get_amenities_in_area demo_world (point_y origin) (point_x origin) 1000
                 (OSM_CACHE demo_state)))
       = Inl ZeroDivisionError
   \<and> ASSESSMENTS (snd (create_territory demo_world demo_request demo_state))
       = ASSESSMENTS demo_state
   \<and> (\<exists>t. fst (create_territory demo_world demo_request demo_state) = Inr t
           \<and> TERRITORIES (snd (create_territory demo_world demo_request demo_state))
                (uuid_territory demo_world) = Some t
           \<and> territory_id t = uuid_territory demo_world
           \<and> coordinates t = new_coordinates demo_request
           \<and> area_sqm t = 0 * 111320 * 111320
           \<and> centroid_lat t = point_y origin \<and> centroid_lon t = point_x origin)
   \<and> get_assessment (uuid_territory demo_world)
         (snd (create_territory demo_world demo_request demo_state))
       = Inl (HTTPException 404 ''Assessment not found'')"
  using demo_facts demo_build_fails
    failed_assessment_leaves_territory_only[OF demo_facts demo_build_fails]
  by blast

text \<open>
  C7. For a polygon of area zero the road density divides by zero, the handler of the
  \<open>try\<close> catches it, and the creation of the territory completes: the territory is stored
  and returned, and no assessment is stored.
\<close>

theorem zero_area_territory_is_created:
  assumes "new_project_id td \<in> dom (PROJECTS s)"
      and "new_coordinates td = ring # rest"
      and "shapely_polygon w ring = Inr (0, c)"
  shows "build_assessment w (uuid_territory w) c 0 (new_coordinates td)
             (fst (get_amenities_in_area w (point_y c) (point_x c) 1000 (OSM_CACHE s)))
           = Inl ZeroDivisionError
         \<and> (\<exists>t. fst (create_territory w td s) = Inr t
                 \<and> TERRITORIES (snd (create_territory w td s)) (uuid_territory w) = Some t
                 \<and> territory_id t = uuid_territory w
                 \<and> area_sqm t = 0)
         \<and> ASSESSMENTS (snd (create_territory w td s)) = ASSESSMENTS s"
  using create_territory_stores[OF assms, unfolded mult_zero_left]
  by (simp add: build_assessment_zero_area)

theorem zero_area_territory_is_created_witness:
  "new_project_id demo_request \<in> dom (PROJECTS demo_state)
   \<and> new_coordinates demo_request = [[0, 0], [0, 0], [0, 0], [0, 0]] # []
   \<and> shapely_polygon demo_world [[0, 0], [0, 0], [0, 0], [0, 0]] = Inr (0, origin)
   \<and> build_assessment demo_world (uuid_territory demo_world) origin 0
         (new_coordinates demo_request)
         (fst (get_amenities_in_area demo_world (point_y origin) (point_x origin) 1000
                 (OSM_CACHE demo_state)))
       = Inl ZeroDivisionError
   \<and> (\<exists>t. fst (create_territory demo_world demo_request demo_state) = Inr t
           \<and> TERRITORIES (snd (create_territory demo_world demo_request demo_state))
                (uuid_territory demo_world) = Some t
           \<and> territory_id t = uuid_territory demo_world
           \<and> area_sqm t = 0)
   \<and> ASSESSMENTS (snd (create_territory demo_world demo_request demo_state))
       = ASSESSMENTS demo_state"
  using demo_facts(1,2,3) zero_area_territory_is_created[OF demo_facts(1,2,3)]
  by blast

section \<open>The amenity fetch\<close>

lemma fetch_category_apply:
  "fetch_category w la lo k m k' =
     (if k' = k
      then Some (case overpass_nodes w [la - 0.01, lo - 0.01, la + 0.01, lo + 0.01] k of
                   Inr found \<Rightarrow> found | Inl e \<Rightarrow> [])
      else m k')"
  by (simp add: fetch_category_def split: sum.splits)

lemma fold_fetch_category:
  "fold (fetch_category w la lo) ks m k' =
     (if k' \<in> set ks
      then Some (case overpass_nodes w [la - 0.01, lo - 0.01, la + 0.01, lo + 0.01] k' of
                   Inr found \<Rightarrow> found | Inl e \<Rightarrow> [])
      else m k')"
  by (induction ks arbitrary: m) (simp_all add: fetch_category_apply)

lemma dom_fold_fetch_category:
  "dom (fold (fetch_category w la lo) ks Map.empty) = set ks"
  by (auto simp: dom_def fold_fetch_category)

lemma amenity_types_14: "length amenity_types = 14 \<and> distinct amenity_types"
  by (simp add: amenity_types_def)

text \<open>
  C6. The amenity fetch returns a mapping with exactly the 14 category keys, whatever the
  queries answer, provided the entries already in the cache have these keys, and every
  entry of the cache has them afterwards. When the key is not in the cache, each category
  is mapped to the elements its own query found, or to the empty list when its query
  failed, whatever the queries of the other categories did.
\<close>

theorem amenity_fetch_is_total_per_category:
  assumes "\<forall>key cached. cache key = Some cached \<longrightarrow> dom cached = set amenity_types"
  shows "dom (fst (get_amenities_in_area w la lo radius cache)) = set amenity_types
         \<and> length amenity_types = 14 \<and> distinct amenity_types
         \<and> (\<forall>key cached. snd (get_amenities_in_area w la lo radius cache) key = Some cached
               \<longrightarrow> dom cached = set amenity_types)
         \<and> (cache (la, lo, radius) = None \<longrightarrow>
              (\<forall>k \<in> set amenity_types.
                 fst (get_amenities_in_area w la lo radius cache) k =
                   Some (case overpass_nodes w [la - 0.01, lo - 0.01, la + 0.01, lo + 0.01] k of
                           Inr found \<Rightarrow> found
                         | Inl e \<Rightarrow> [])))"
proof (cases "cache (la, lo, radius)")
  case None
  then show ?thesis using assms
    by (simp add: get_amenities_in_area_def Let_def dom_fold_fetch_category fold_fetch_category
        amenity_types_14)
next
  case (Some cached)
  then show ?thesis using assms
    by (simp add: get_amenities_in_area_def Let_def amenity_types_14)
qed

lemma dom_all_categories_empty: "dom all_categories_empty = set amenity_types"
  by (auto simp: dom_def all_empty_lookup)

theorem amenity_fetch_is_total_per_category_witness:
  "dom all_categories_empty = set amenity_types
   \<and> [(1::real, 1::real, 1000::int) \<mapsto> all_categories_empty] (0, 0, 1000) = None
   \<and> dom (fst (get_amenities_in_area demo_world 0 0 1000 [(1, 1, 1000) \<mapsto> all_categories_empty]))
       = set amenity_types
   \<and> fst (get_amenities_in_area demo_world 0 0 1000 [(1, 1, 1000) \<mapsto> all_categories_empty])
        ''hospital'' = Some []
   \<and> fst (get_amenities_in_area demo_world 0 0 1000 [(1, 1, 1000) \<mapsto> all_categories_empty])
        ''school'' = Some [amenity_at 7 0.001 0.001]
   \<and> fst (get_amenities_in_area demo_world 0 0 1000 [(1, 1, 1000) \<mapsto> all_categories_empty])
        ''park'' = Some []"
proof -
  let ?cache = "[(1::real, 1::real, 1000::int) \<mapsto> all_categories_empty]"
  have inv: "\<forall>key cached. ?cache key = Some cached \<longrightarrow> dom cached = set amenity_types"
    by (simp add: dom_all_categories_empty)
  have miss: "?cache (0, 0, 1000) = None" by simp
  have mem: "''hospital'' \<in> set amenity_types" "''school'' \<in> set amenity_types"
    "''park'' \<in> set amenity_types"
    by (simp_all add: amenity_types_def)
  note t = amenity_fetch_is_total_per_category[OF inv, of demo_world 0 0 1000]
  have each: "\<forall>k \<in> set amenity_types.
      fst (get_amenities_in_area demo_world 0 0 1000 ?cache) k =
        Some (case overpass_nodes demo_world [0 - 0.01, 0 - 0.01, 0 + 0.01, 0 + 0.01] k of
                Inr found \<Rightarrow> found | Inl e \<Rightarrow> [])"
    using t miss by blast
  have h: "fst (get_amenities_in_area demo_world 0 0 1000 ?cache) ''hospital'' = Some []"
    using bspec[OF each mem(1)] by (simp add: demo_world_def)
  have sc: "fst (get_amenities_in_area demo_world 0 0 1000 ?cache) ''school''
              = Some [amenity_at 7 0.001 0.001]"
    using bspec[OF each mem(2)] by (simp add: demo_world_def)
  have pk: "fst (get_amenities_in_area demo_world 0 0 1000 ?cache) ''park'' = Some []"
    using bspec[OF each mem(3)] by (simp add: demo_world_def)
  have d: "dom (fst (get_amenities_in_area demo_world 0 0 1000 ?cache)) = set amenity_types"
    using t by (rule conjunct1)
  show ?thesis
    by (intro conjI dom_all_categories_empty miss d h sc pk)
qed

end
